theory Spec2Isabelle
  imports Main "HOL-Library.Extended_Nat"
begin

unbundle bit_operations_syntax

section \<open>Board geometry (Board, Coordinates)\<close>

text \<open>
  A square is the string the program uses for it: a file letter A..L followed by the rank
  in decimal, such as \<open>E6\<close> or \<open>A10\<close>. \<open>Board.ALL_SQUARES\<close> lists the 160 squares of
  the cross-shaped board, rank by rank, and the two castles are the pairs F1/G1 and F16/G16.
  The list is written out as the constant \<open>ALL_SQUARES\<close> of the single-file version of the
  game logic has it; the rows are those of the specification's coordinate system.
\<close>

type_synonym square = string

definition ALL_SQUARES :: "square list" where
  "ALL_SQUARES = [
    ''F1'', ''G1'',
    ''C2'', ''D2'', ''E2'', ''F2'', ''G2'', ''H2'', ''I2'', ''J2'',
    ''B3'', ''C3'', ''D3'', ''E3'', ''F3'', ''G3'', ''H3'', ''I3'', ''J3'', ''K3'',
    ''A4'', ''B4'', ''C4'', ''D4'', ''E4'', ''F4'', ''G4'', ''H4'', ''I4'', ''J4'', ''K4'', ''L4'',
    ''A5'', ''B5'', ''C5'', ''D5'', ''E5'', ''F5'', ''G5'', ''H5'', ''I5'', ''J5'', ''K5'', ''L5'',
    ''A6'', ''B6'', ''C6'', ''D6'', ''E6'', ''F6'', ''G6'', ''H6'', ''I6'', ''J6'', ''K6'', ''L6'',
    ''A7'', ''B7'', ''C7'', ''D7'', ''E7'', ''F7'', ''G7'', ''H7'', ''I7'', ''J7'', ''K7'', ''L7'',
    ''A8'', ''B8'', ''C8'', ''D8'', ''E8'', ''F8'', ''G8'', ''H8'', ''I8'', ''J8'', ''K8'', ''L8'',
    ''A9'', ''B9'', ''C9'', ''D9'', ''E9'', ''F9'', ''G9'', ''H9'', ''I9'', ''J9'', ''K9'', ''L9'',
    ''A10'', ''B10'', ''C10'', ''D10'', ''E10'', ''F10'', ''G10'', ''H10'', ''I10'', ''J10'', ''K10'', ''L10'',
    ''A11'', ''B11'', ''C11'', ''D11'', ''E11'', ''F11'', ''G11'', ''H11'', ''I11'', ''J11'', ''K11'', ''L11'',
    ''A12'', ''B12'', ''C12'', ''D12'', ''E12'', ''F12'', ''G12'', ''H12'', ''I12'', ''J12'', ''K12'', ''L12'',
    ''A13'', ''B13'', ''C13'', ''D13'', ''E13'', ''F13'', ''G13'', ''H13'', ''I13'', ''J13'', ''K13'', ''L13'',
    ''B14'', ''C14'', ''D14'', ''E14'', ''F14'', ''G14'', ''H14'', ''I14'', ''J14'', ''K14'',
    ''C15'', ''D15'', ''E15'', ''F15'', ''G15'', ''H15'', ''I15'', ''J15'',
    ''F16'', ''G16'']"

definition WHITE_CASTLE :: "square list" where
  "WHITE_CASTLE = [''F1'', ''G1'']"

definition BLACK_CASTLE :: "square list" where
  "BLACK_CASTLE = [''F16'', ''G16'']"

definition DIRECTIONS :: "(int \<times> int) list" where
  "DIRECTIONS = [(0, 1), (0, -1), (1, 0), (-1, 0), (1, 1), (-1, -1), (1, -1), (-1, 1)]"

text \<open>
  \<open>Number.parseInt\<close> on the digits after the file letter. A string with no leading digit
  gives NaN, which is \<open>None\<close> here; every comparison with NaN is false in the program, so
  the functions below answer \<open>False\<close> or \<open>None\<close> on it. Signs, white space and the
  hexadecimal prefix, which no square name has, are left out.
\<close>

definition isDigit :: "char \<Rightarrow> bool" where
  "isDigit c \<longleftrightarrow> 48 \<le> (of_char c :: int) \<and> (of_char c :: int) \<le> 57"

definition parseInt :: "string \<Rightarrow> int option" where
  "parseInt s = (case takeWhile isDigit s of
       [] \<Rightarrow> None
     | ds \<Rightarrow> Some (foldl (\<lambda>a c. 10 * a + (of_char c - 48)) 0 ds))"

text \<open>\<open>Coordinates.parseSquare\<close>: file A = 0, ..., L = 11, and the rank.\<close>

definition parseSquare :: "square \<Rightarrow> (int \<times> int) option" where
  "parseSquare s = (case s of
       [] \<Rightarrow> None
     | c # r \<Rightarrow> (case parseInt r of None \<Rightarrow> None | Some n \<Rightarrow> Some (of_char c - 65, n)))"

text \<open>The decimal digits of a number that is not negative, and of any integer.\<close>

function decimal :: "int \<Rightarrow> string" where
  "decimal n = (if n < 10 then [char_of (48 + n)]
                else decimal (n div 10) @ [char_of (48 + n mod 10)])"
  by pat_completeness auto
termination
  by (relation "measure nat") auto

definition showInt :: "int \<Rightarrow> string" where
  "showInt i = (if i < 0 then CHR ''-'' # decimal (- i) else decimal i)"

text \<open>\<open>Coordinates.toSquare\<close>: \<open>String.fromCharCode(65 + file) + rank\<close>.\<close>

definition toSquare :: "int \<Rightarrow> int \<Rightarrow> square" where
  "toSquare f r = char_of (65 + f) # showInt r"

definition isValidSquare :: "square \<Rightarrow> bool" where
  "isValidSquare s \<longleftrightarrow> s \<in> set ALL_SQUARES"

definition isOneAdjacent :: "square \<Rightarrow> square \<Rightarrow> bool" where
  "isOneAdjacent from to = (case (parseSquare from, parseSquare to) of
      (Some (f1, r1), Some (f2, r2)) \<Rightarrow>
        (let df = \<bar>f1 - f2\<bar>; dr = \<bar>r1 - r2\<bar>
         in (df = 1 \<and> dr = 0) \<or> (df = 0 \<and> dr = 1) \<or> (df = 1 \<and> dr = 1))
    | _ \<Rightarrow> False)"

definition isTwoAdjacent :: "square \<Rightarrow> square \<Rightarrow> bool" where
  "isTwoAdjacent from to = (case (parseSquare from, parseSquare to) of
      (Some (f1, r1), Some (f2, r2)) \<Rightarrow>
        (let df = \<bar>f1 - f2\<bar>; dr = \<bar>r1 - r2\<bar>
         in (df = 2 \<and> dr = 0) \<or> (df = 0 \<and> dr = 2) \<or> (df = 2 \<and> dr = 2))
    | _ \<Rightarrow> False)"

definition getAdjacentSquare :: "square \<Rightarrow> int \<times> int \<Rightarrow> square option" where
  "getAdjacentSquare s d = (case parseSquare s of
      None \<Rightarrow> None
    | Some (f, r) \<Rightarrow>
        (let newSquare = toSquare (f + fst d) (r + snd d)
         in if isValidSquare newSquare then Some newSquare else None))"

text \<open>
  \<open>Coordinates.getDirection\<close> normalises each component of the difference to -1, 0 or 1.
  It is only called on squares that passed \<open>isTwoAdjacent\<close>, where nothing is NaN.
\<close>

definition getDirection :: "square \<Rightarrow> square \<Rightarrow> (int \<times> int) option" where
  "getDirection from to = (case (parseSquare from, parseSquare to) of
      (Some (fromFile, fromRank), Some (toFile, toRank)) \<Rightarrow>
        Some (sgn (toFile - fromFile), sgn (toRank - fromRank))
    | _ \<Rightarrow> None)"

section \<open>Position model (types)\<close>

datatype color = White | Black

datatype pieceType = Man | Knight

record piece =
  ptype :: pieceType
  pcolor :: color

text \<open>
  \<open>BoardState\<close> is a dictionary from square names to a piece or null; a missing key reads
  as undefined, which the program treats like null.
\<close>

type_synonym BoardState = "square \<Rightarrow> piece option"

record GameState =
  white_castle_moves :: int
  black_castle_moves :: int
  board_state :: BoardState

record TurnState =
  moves :: "square list"
  capturedSquares :: "square list"
  mustContinue :: bool

text \<open>
  While it looks for continuations \<open>Logic.executeStep\<close> collects entries
  \<open>{type, square}\<close>; what it returns in \<open>legalNextMoves\<close> is the list of their squares,
  a list of strings like the one \<open>Logic.getInitialMoves\<close> returns.
\<close>

datatype moveType = Jump | Canter

record StepMove =
  moveType :: moveType
  moveSquare :: square

datatype StepResult =
    StepSuccess BoardState TurnState "square list" string
  | StepFailure string

section \<open>Rules primitives (Logic)\<close>

definition createEmptyTurnState :: "square \<Rightarrow> TurnState" where
  "createEmptyTurnState startSquare =
     \<lparr>moves = [startSquare], capturedSquares = [], mustContinue = False\<rparr>"

definition isValidPlainMove :: "square \<Rightarrow> square \<Rightarrow> BoardState \<Rightarrow> bool" where
  "isValidPlainMove from to boardState \<longleftrightarrow> isOneAdjacent from to \<and> boardState to = None"

text \<open>
  \<open>isValidCanter\<close> and \<open>isValidJump\<close> return \<open>{valid: true, middleSquare}\<close> or
  \<open>{valid: false}\<close>: here \<open>Some middleSquare\<close> or \<open>None\<close>.
\<close>

definition isValidCanter :: "square \<Rightarrow> square \<Rightarrow> BoardState \<Rightarrow> color \<Rightarrow> square option" where
  "isValidCanter from to boardState playerColor =
     (if \<not> isTwoAdjacent from to then None
      else case getDirection from to of
        None \<Rightarrow> None
      | Some direction \<Rightarrow>
          (case getAdjacentSquare from direction of
             None \<Rightarrow> None
           | Some middle \<Rightarrow>
               (case boardState middle of
                  None \<Rightarrow> None
                | Some middlePiece \<Rightarrow>
                    if pcolor middlePiece \<noteq> playerColor then None
                    else if boardState to \<noteq> None then None
                    else Some middle)))"

definition isValidJump :: "square \<Rightarrow> square \<Rightarrow> BoardState \<Rightarrow> color \<Rightarrow> square option" where
  "isValidJump from to boardState playerColor =
     (if \<not> isTwoAdjacent from to then None
      else case getDirection from to of
        None \<Rightarrow> None
      | Some direction \<Rightarrow>
          (case getAdjacentSquare from direction of
             None \<Rightarrow> None
           | Some middle \<Rightarrow>
               (case boardState middle of
                  None \<Rightarrow> None
                | Some middlePiece \<Rightarrow>
                    if pcolor middlePiece = playerColor then None
                    else if boardState to \<noteq> None then None
                    else Some middle)))"

definition hasColor :: "BoardState \<Rightarrow> color \<Rightarrow> square \<Rightarrow> bool" where
  "hasColor boardState c sq = (case boardState sq of None \<Rightarrow> False | Some p \<Rightarrow> pcolor p = c)"

text \<open>The two-square targets in all eight directions, in the order of \<open>DIRECTIONS\<close>.\<close>

definition twoSteps :: "square \<Rightarrow> square list" where
  "twoSteps sq = concat (map (\<lambda>direction.
      case getAdjacentSquare sq direction of
        None \<Rightarrow> []
      | Some oneStep \<Rightarrow>
          (case getAdjacentSquare oneStep direction of None \<Rightarrow> [] | Some twoStep \<Rightarrow> [twoStep]))
    DIRECTIONS)"

definition checkFirstMovePossibleJumps :: "BoardState \<Rightarrow> color \<Rightarrow> square list" where
  "checkFirstMovePossibleJumps boardState playerColor =
     concat (map (\<lambda>sq.
        if hasColor boardState playerColor sq
        then filter (\<lambda>twoStep. isValidJump sq twoStep boardState playerColor \<noteq> None) (twoSteps sq)
        else [])
      ALL_SQUARES)"

definition ownCastleOf :: "color \<Rightarrow> square list" where
  "ownCastleOf playerColor = (if playerColor = White then WHITE_CASTLE else BLACK_CASTLE)"

definition oppCastleOf :: "color \<Rightarrow> square list" where
  "oppCastleOf playerColor = (if playerColor = White then BLACK_CASTLE else WHITE_CASTLE)"

text \<open>
  The continuation list that \<open>executeStep\<close> computes after a canter or a jump to \<open>to\<close>:
  one entry at most per direction, a jump if one is legal there, else (when nothing was
  captured in this turn) a canter that stays out of the own castle. If the list holds a
  jump, only the jumps are kept.
\<close>

definition nextMoveIn :: "square \<Rightarrow> BoardState \<Rightarrow> color \<Rightarrow> bool \<Rightarrow> bool \<Rightarrow> bool
    \<Rightarrow> square \<Rightarrow> StepMove list" where
  "nextMoveIn to newBoardState playerColor wouldBeCharge isKnight hasJumped twoStep =
     (if isValidJump to twoStep newBoardState playerColor \<noteq> None \<and> (\<not> wouldBeCharge \<or> isKnight)
      then [\<lparr>moveType = Jump, moveSquare = twoStep\<rparr>]
      else if hasJumped then []
      else if isValidCanter to twoStep newBoardState playerColor \<noteq> None
              \<and> twoStep \<notin> set (ownCastleOf playerColor)
      then [\<lparr>moveType = Canter, moveSquare = twoStep\<rparr>]
      else [])"

definition isJumpMove :: "StepMove \<Rightarrow> bool" where
  "isJumpMove m \<longleftrightarrow> moveType m = Jump"

definition jumpsOnlyIfAny :: "StepMove list \<Rightarrow> StepMove list" where
  "jumpsOnlyIfAny ms = (if list_ex isJumpMove ms then filter isJumpMove ms else ms)"

text \<open>
  \<open>Logic.executeStep\<close>. The current square is the last of \<open>moves\<close>. A turn state
  starts with its origin in \<open>moves\<close> and only grows; were the list empty, the program
  would look the piece up under the key \<open>undefined\<close> and find none on a board over the
  160 squares, which is the first failure below.
\<close>

definition executeStep :: "square \<Rightarrow> BoardState \<Rightarrow> TurnState \<Rightarrow> color \<Rightarrow> StepResult" where
  "executeStep to boardState turnState playerColor =
   (case (if moves turnState = [] then None else boardState (last (moves turnState))) of
      None \<Rightarrow> StepFailure ''No piece at current position''
    | Some piece \<Rightarrow>
      if pcolor piece \<noteq> playerColor then StepFailure ''No piece at current position''
      else
       let from = last (moves turnState);
           isKnight = (ptype piece = Knight);
           startSquare = hd (moves turnState);
           plainCheck = isValidPlainMove from to boardState;
           canterCheck = isValidCanter from to boardState playerColor;
           jumpCheck = isValidJump from to boardState playerColor;
           isFirstMove = (length (moves turnState) = 1);
           hasJumpedThisTurn = (length (capturedSquares turnState) > 0);
           totalCapturedSquares =
             length (capturedSquares turnState) + (if jumpCheck \<noteq> None then 1 else 0);
           isCharge = (jumpCheck \<noteq> None \<and> totalCapturedSquares < length (moves turnState))
       in
       if \<not> plainCheck \<and> canterCheck = None \<and> jumpCheck = None
         then StepFailure ''Invalid move''
       else if plainCheck \<and> \<not> isFirstMove
         then StepFailure ''Can only make a plain move on the first step''
       else if hasJumpedThisTurn \<and> jumpCheck = None
         then StepFailure ''Must continue jumping''
       else if isCharge \<and> \<not> isKnight
         then StepFailure ''Only knights can jump after cantering''
       else
        let moved = boardState(to := Some piece, from := None);
            newBoardState = (case jumpCheck of
                None \<Rightarrow> moved
              | Some middleSquare \<Rightarrow> moved(middleSquare := None));
            newTurnState = \<lparr>moves = moves turnState @ [to],
                            capturedSquares = (case jumpCheck of
                                None \<Rightarrow> capturedSquares turnState
                              | Some middleSquare \<Rightarrow> capturedSquares turnState @ [middleSquare]),
                            mustContinue = False\<rparr>
        in
        if to \<in> set (oppCastleOf playerColor)
          then StepSuccess newBoardState newTurnState []
                 ''Landing in your opponent's castle ends your turn''
        else if plainCheck
          then StepSuccess newBoardState newTurnState [] []
        else
         let wouldBeCharge = (totalCapturedSquares < length (moves turnState));
             legalNextMoves = jumpsOnlyIfAny (concat (map
                (nextMoveIn to newBoardState playerColor wouldBeCharge isKnight
                   (hasJumpedThisTurn \<or> jumpCheck \<noteq> None))
                (twoSteps to)));
             canJump = list_ex isJumpMove legalNextMoves
         in
         if to = startSquare
           then StepSuccess newBoardState (newTurnState\<lparr>mustContinue := True\<rparr>)
                  (map moveSquare legalNextMoves) ''Cannot complete turn on starting square''
         else if canJump
           then StepSuccess newBoardState (newTurnState\<lparr>mustContinue := True\<rparr>)
                  (map moveSquare legalNextMoves) ''You are obligated to jump''
         else StepSuccess newBoardState newTurnState (map moveSquare legalNextMoves) [])"

text \<open>\<open>Logic.getInitialMoves\<close>: the first steps a piece may take, as target squares.\<close>

definition getInitialMoves :: "square \<Rightarrow> BoardState \<Rightarrow> color \<Rightarrow> square list" where
  "getInitialMoves sq boardState playerColor =
     (if \<not> hasColor boardState playerColor sq then []
      else
       let possibleJumps = checkFirstMovePossibleJumps boardState playerColor in
       if length possibleJumps > 0
       then filter (\<lambda>jump. isValidJump sq jump boardState playerColor \<noteq> None) possibleJumps
       else concat (map (\<lambda>direction.
         case getAdjacentSquare sq direction of
           None \<Rightarrow> []
         | Some oneStep \<Rightarrow>
             (if boardState oneStep = None \<and> oneStep \<notin> set (ownCastleOf playerColor)
              then [oneStep] else [])
             @ (case getAdjacentSquare oneStep direction of
                  None \<Rightarrow> []
                | Some twoStep \<Rightarrow>
                    if isValidCanter sq twoStep boardState playerColor \<noteq> None
                       \<and> twoStep \<notin> set (ownCastleOf playerColor)
                    then [twoStep] else []))
         DIRECTIONS))"

fun joinWith :: "string \<Rightarrow> string list \<Rightarrow> string" where
  "joinWith sep [] = []"
| "joinWith sep [x] = x"
| "joinWith sep (x # y # ys) = x @ sep @ joinWith sep (y # ys)"

definition getTurnNotation :: "TurnState \<Rightarrow> string" where
  "getTurnNotation turnState =
     (if length (moves turnState) < 2 then []
      else if length (capturedSquares turnState) > 0 then joinWith ''x'' (moves turnState)
      else joinWith ''-'' (moves turnState))"

section \<open>Turn generator (MoveGenerator)\<close>

record CompleteTurn =
  turnNotation :: string
  startSquare :: square
  endSquare :: square
  turnMoves :: "square list"
  turnCaptured :: "square list"
  finalBoardState :: BoardState
  isForced :: bool

definition createCompleteTurn :: "BoardState \<Rightarrow> TurnState \<Rightarrow> bool \<Rightarrow> CompleteTurn" where
  "createCompleteTurn finalBoard turnState forced =
     (let n = getTurnNotation turnState;
          start = hd (moves turnState);
          end = last (moves turnState)
      in \<lparr>turnNotation = (if n = [] then start @ ''-'' @ end else n),
          startSquare = start,
          endSquare = end,
          turnMoves = moves turnState,
          turnCaptured = capturedSquares turnState,
          finalBoardState = finalBoard,
          isForced = forced\<rparr>)"

text \<open>
  The generator does not use the moves it gets from \<open>Logic\<close> as the strings they are: it
  reads \<open>move.to\<close> for the target square and \<open>move.type\<close> for the kind of step. A
  string has neither property, so both read as \<open>undefined\<close>, which is \<open>None\<close> here.
\<close>

definition readTo :: "square \<Rightarrow> square option" where
  "readTo move = None"

definition readType :: "square \<Rightarrow> string option" where
  "readType move = None"

text \<open>
  The program is not type-checked when it runs, so \<open>undefined\<close> reaches
  \<open>Logic.executeStep\<close> as its argument \<open>to\<close>. The test for the piece on the current
  square does not look at \<open>to\<close> and fails as usual. After it the first thing computed is
  \<open>isValidPlainMove\<close>: reading \<open>boardState[to]\<close> finds no piece and raises nothing, and then
  \<open>Coordinates.isOneAdjacent(from, to)\<close> calls \<open>parseSquare(to)\<close>, whose
  \<open>square.charCodeAt(0)\<close> throws a \<open>TypeError\<close> on \<open>undefined\<close>. Called with a
  string, \<open>executeStep\<close> throws nothing. The fifth argument that the generator passes is
  not a parameter of \<open>executeStep\<close> and is ignored.
\<close>

datatype error = TypeError

definition executeStepCall :: "square option \<Rightarrow> BoardState \<Rightarrow> TurnState \<Rightarrow> color
    \<Rightarrow> error + StepResult" where
  "executeStepCall to boardState turnState playerColor =
     (case to of
        Some target \<Rightarrow> Inr (executeStep target boardState turnState playerColor)
      | None \<Rightarrow>
          (case (if moves turnState = [] then None
                 else boardState (last (moves turnState))) of
             None \<Rightarrow> Inr (StepFailure ''No piece at current position'')
           | Some piece \<Rightarrow>
               if pcolor piece \<noteq> playerColor
               then Inr (StepFailure ''No piece at current position'')
               else Inl TypeError))"

text \<open>
  A loop whose body appends turns to \<open>completeTurns\<close> and may throw: the turns of all
  rounds in order, or the error of the first round that throws, which ends the loop and
  leaves the caller without a list.
\<close>

fun appendAll :: "(error + 'a list) list \<Rightarrow> error + 'a list" where
  "appendAll [] = Inr []"
| "appendAll (Inl e # rounds) = Inl e"
| "appendAll (Inr xs # rounds) =
     (case appendAll rounds of Inl e \<Rightarrow> Inl e | Inr ys \<Rightarrow> Inr (xs @ ys))"

text \<open>
  \<open>exploreTurnRecursive\<close> appends to the array \<open>completeTurns\<close>; the function here returns
  the turns one call appends, in the order it appends them, or the error it throws. A
  failed step appends nothing.
\<close>

function exploreTurnRecursive ::
    "square option \<Rightarrow> BoardState \<Rightarrow> TurnState \<Rightarrow> color \<Rightarrow> bool \<Rightarrow> nat
     \<Rightarrow> error + CompleteTurn list" where
  "exploreTurnRecursive to boardState turnState playerColor forced depth =
     (if depth > 15
      then Inr (if length (moves turnState) > 0
                then [createCompleteTurn boardState turnState forced] else [])
      else case executeStepCall to boardState turnState playerColor of
        Inl e \<Rightarrow> Inl e
      | Inr (StepFailure err) \<Rightarrow> Inr []
      | Inr (StepSuccess newBoardState newTurnState legalNextMoves message) \<Rightarrow>
          (let start = hd (moves newTurnState);
               filteredNextMoves = filter
                 (\<lambda>move. readTo move = Some start
                    \<or> readTo move \<notin> set (map Some (moves newTurnState)))
                 legalNextMoves
           in
           if mustContinue newTurnState \<and> length filteredNextMoves > 0
           then appendAll (map (\<lambda>nextMove.
                  exploreTurnRecursive (readTo nextMove) newBoardState newTurnState
                    playerColor forced (depth + 1))
                filteredNextMoves)
           else if length filteredNextMoves > 0
           then appendAll
                 (Inr [createCompleteTurn newBoardState newTurnState forced]
                  # map (\<lambda>nextMove.
                      exploreTurnRecursive (readTo nextMove) newBoardState newTurnState
                        playerColor forced (depth + 1))
                    (filter (\<lambda>m. readType m = Some ''jump'') filteredNextMoves))
           else Inr [createCompleteTurn newBoardState newTurnState forced]))"
  by pat_completeness auto
termination
  by (relation "measure (\<lambda>(to, b, ts, c, f, depth). 16 - depth)") auto

text \<open>Keep the first turn of each notation, as the loop over \<open>seenNotations\<close> does.\<close>

fun uniqueTurns :: "string list \<Rightarrow> CompleteTurn list \<Rightarrow> CompleteTurn list" where
  "uniqueTurns seen [] = []"
| "uniqueTurns seen (t # ts) =
     (if turnNotation t \<in> set seen then uniqueTurns seen ts
      else t # uniqueTurns (turnNotation t # seen) ts)"

text \<open>The two loops over the squares and over the initial moves of each piece.\<close>

definition allTurns :: "BoardState \<Rightarrow> color \<Rightarrow> error + CompleteTurn list" where
  "allTurns boardState playerColor =
     (let hasForceJump = (length (checkFirstMovePossibleJumps boardState playerColor) > 0)
      in appendAll (map (\<lambda>sq.
           if \<not> hasColor boardState playerColor sq then Inr []
           else appendAll (map (\<lambda>move.
                  exploreTurnRecursive (readTo move) boardState (createEmptyTurnState sq)
                    playerColor hasForceJump 0)
                (getInitialMoves sq boardState playerColor)))
         ALL_SQUARES))"

definition generateAllLegalTurns :: "GameState \<Rightarrow> color \<Rightarrow> error + CompleteTurn list" where
  "generateAllLegalTurns gameState playerColor =
     (case allTurns (board_state gameState) playerColor of
        Inl e \<Rightarrow> Inl e
      | Inr turns \<Rightarrow> Inr (uniqueTurns [] turns))"

text \<open>\<open>MoveGenerator.hasLegalMoves\<close>: some piece of the side has an initial move.\<close>

definition hasLegalMoves :: "GameState \<Rightarrow> color \<Rightarrow> bool" where
  "hasLegalMoves gameState playerColor =
     list_ex (\<lambda>sq. hasColor (board_state gameState) playerColor sq
                \<and> length (getInitialMoves sq (board_state gameState) playerColor) > 0)
       ALL_SQUARES"

section \<open>Evaluator: castle proximity\<close>

text \<open>
  JavaScript numbers are IEEE 754 doubles. A finite double is modelled by the rational
  number it denotes. \<open>toDouble q\<close> is the double nearest to the rational \<open>q\<close>, a tie
  going to the even significand: with \<open>e\<close> the exponent of \<open>q\<close>
  (\<open>2 ^ e \<le> \<bar>q\<bar> < 2 ^ (e + 1)\<close>), it is \<open>q\<close> rounded to a multiple of \<open>2 ^ (e - 52)\<close>, so
  that the significand has 53 bits. This is the rounding of the program for magnitudes
  in the normal range of a double (about \<open>10 ^ -308\<close> to \<open>10 ^ 308\<close>), which all numbers
  in the evaluator are in. A decimal literal such as \<open>0.66\<close> denotes the double nearest
  to its decimal value, and a product is the double nearest to the exact product.
\<close>

function bitLength :: "int \<Rightarrow> int" where
  "bitLength n = (if n \<le> 0 then 0 else 1 + bitLength (n div 2))"
  by pat_completeness auto
termination
  by (relation "measure nat") auto

definition twoPower :: "int \<Rightarrow> rat" where
  "twoPower e = (if e \<ge> 0 then 2 ^ nat e else 1 / 2 ^ nat (- e))"

text \<open>The exponent \<open>e\<close> of a positive rational: \<open>2 ^ e \<le> q < 2 ^ (e + 1)\<close>.\<close>

definition exponentOf :: "rat \<Rightarrow> int" where
  "exponentOf q = (if q \<ge> 1 then bitLength \<lfloor>q\<rfloor> - 1 else - bitLength (\<lceil>1 / q\<rceil> - 1))"

definition roundHalfEven :: "rat \<Rightarrow> int" where
  "roundHalfEven q =
     (let lower = \<lfloor>q\<rfloor>; rest = q - of_int lower
      in if rest < 1 / 2 then lower
         else if rest > 1 / 2 then lower + 1
         else if even lower then lower else lower + 1)"

definition toDouble :: "rat \<Rightarrow> rat" where
  "toDouble q =
     (if q = 0 then 0
      else let unit = twoPower (exponentOf \<bar>q\<bar> - 52)
           in sgn q * of_int (roundHalfEven (\<bar>q\<bar> / unit)) * unit)"

definition timesDouble :: "rat \<Rightarrow> rat \<Rightarrow> rat" where
  "timesDouble x y = toDouble (x * y)"

definition CASTLE_PROXIMITY_BONUS :: rat where
  "CASTLE_PROXIMITY_BONUS = 40"

definition manhattan :: "int \<times> int \<Rightarrow> int \<times> int \<Rightarrow> nat" where
  "manhattan p q = nat (\<bar>fst p - fst q\<bar> + \<bar>snd p - snd q\<bar>)"

text \<open>
  The loop over the enemy castle starts from \<open>Infinity\<close> and takes the minimum with the
  distance to each castle square.
\<close>

definition minCastleDistance :: "int \<times> int \<Rightarrow> square list \<Rightarrow> enat" where
  "minCastleDistance p castle =
     foldl (\<lambda>minDistance castleSquare.
        case parseSquare castleSquare of
          None \<Rightarrow> minDistance
        | Some q \<Rightarrow> min minDistance (enat (manhattan p q)))
      \<infinity> castle"

definition getCastleProximityBonus :: "square \<Rightarrow> color \<Rightarrow> rat" where
  "getCastleProximityBonus sq c =
     (case parseSquare sq of
        None \<Rightarrow> 0
      | Some p \<Rightarrow>
          (let minDistance = minCastleDistance p (oppCastleOf c) in
           if minDistance \<le> 2 then CASTLE_PROXIMITY_BONUS
           else if minDistance \<le> 4
             then timesDouble CASTLE_PROXIMITY_BONUS (toDouble (66 / 100))
           else if minDistance \<le> 6
             then timesDouble CASTLE_PROXIMITY_BONUS (toDouble (33 / 100))
           else if minDistance \<le> 8
             then timesDouble CASTLE_PROXIMITY_BONUS (toDouble (15 / 100))
           else 0))"

text \<open>
  The distance the specification speaks of: the least Manhattan distance from the square
  to a square of the enemy castle.
\<close>

definition nearestEnemyCastle :: "square \<Rightarrow> color \<Rightarrow> nat" where
  "nearestEnemyCastle sq c =
     Min ((\<lambda>castleSquare. manhattan (the (parseSquare sq)) (the (parseSquare castleSquare)))
          ` set (oppCastleOf c))"

section \<open>Zobrist hashing and transposition table\<close>

text \<open>
  A \<open>bigint\<close> is an unbounded integer, and \<open>^\<close> on it is \<open>XOR\<close> on \<open>int\<close>. The keys are
  drawn at construction from \<open>randomBigInt\<close>; \<open>rnd i\<close> is the value of its \<open>i\<close>-th call.
\<close>

record ZobristKeys =
  pieceKeys :: "(square \<times> pieceType \<times> color) \<rightharpoonup> int"
  turnKey :: int
  whiteCastleKeys :: "int list"
  blackCastleKeys :: "int list"

definition pieceKeyNames :: "(square \<times> pieceType \<times> color) list" where
  "pieceKeyNames = concat (map (\<lambda>sq. concat (map (\<lambda>t. map (\<lambda>c. (sq, t, c)) [White, Black])
      [Man, Knight])) ALL_SQUARES)"

definition initializeZobristKeys :: "(nat \<Rightarrow> int) \<Rightarrow> ZobristKeys" where
  "initializeZobristKeys rnd =
     (let n = length pieceKeyNames in
      \<lparr>pieceKeys = map_of (zip pieceKeyNames (map rnd [0 ..< n])),
       turnKey = rnd n,
       whiteCastleKeys = map (\<lambda>i. rnd (n + 1 + 2 * i)) [0 ..< 3],
       blackCastleKeys = map (\<lambda>i. rnd (n + 2 + 2 * i)) [0 ..< 3]\<rparr>)"

definition hashPiece :: "ZobristKeys \<Rightarrow> BoardState \<Rightarrow> int \<Rightarrow> square \<Rightarrow> int" where
  "hashPiece keys boardState hash sq =
     (case boardState sq of
        None \<Rightarrow> hash
      | Some p \<Rightarrow>
          (case pieceKeys keys (sq, ptype p, pcolor p) of
             None \<Rightarrow> hash
           | Some pieceHash \<Rightarrow> if pieceHash \<noteq> 0 then hash XOR pieceHash else hash))"

definition hashCastle :: "int list \<Rightarrow> int \<Rightarrow> int \<Rightarrow> int" where
  "hashCastle castleKeys castleMoves hash =
     (if castleMoves > 0 \<and> castleMoves \<le> int (length castleKeys)
      then hash XOR castleKeys ! nat (castleMoves - 1) else hash)"

definition computeHash :: "ZobristKeys \<Rightarrow> GameState \<Rightarrow> color \<Rightarrow> int" where
  "computeHash keys gameState currentPlayer =
     (let pieces = foldl (hashPiece keys (board_state gameState)) 0 ALL_SQUARES;
          turn = (if currentPlayer = Black then pieces XOR turnKey keys else pieces);
          white = hashCastle (whiteCastleKeys keys) (white_castle_moves gameState) turn
      in hashCastle (blackCastleKeys keys) (black_castle_moves gameState) white)"

text \<open>
  A JavaScript number that may be infinite: the search starts its best score at
  \<open>-Infinity\<close>.
\<close>

datatype number = Num rat | PosInfinity | NegInfinity

fun absNumber :: "number \<Rightarrow> number" where
  "absNumber (Num q) = Num \<bar>q\<bar>"
| "absNumber PosInfinity = PosInfinity"
| "absNumber NegInfinity = PosInfinity"

fun exceeds :: "number \<Rightarrow> rat \<Rightarrow> bool" where
  "exceeds (Num q) bound = (q > bound)"
| "exceeds PosInfinity bound = True"
| "exceeds NegInfinity bound = False"

datatype ttFlag = Exact | Lowerbound | Upperbound

record TTEntry =
  zobristKey :: int
  entryDepth :: int
  entryScore :: number
  entryFlag :: ttFlag
  bestMoveNotation :: "string option"

text \<open>
  The table is a \<open>Map\<close> keyed by the decimal string of the hash, which names the hash
  uniquely; a \<open>Map\<close> keeps its keys in insertion order, so it is a list of pairs here.
  \<open>maxSize\<close> is \<open>maxSizeMB * 1024 * 1024 / 100\<close>.
\<close>

record TranspositionTable =
  table :: "(int \<times> TTEntry) list"
  maxSize :: rat

definition newTranspositionTable :: "rat \<Rightarrow> TranspositionTable" where
  "newTranspositionTable maxSizeMB = \<lparr>table = [], maxSize = (maxSizeMB * 1024 * 1024) / 100\<rparr>"

text \<open>\<open>Map.set\<close>: an existing key keeps its place, a new key goes to the end.\<close>

fun mapSet :: "int \<Rightarrow> TTEntry \<Rightarrow> (int \<times> TTEntry) list \<Rightarrow> (int \<times> TTEntry) list" where
  "mapSet k v [] = [(k, v)]"
| "mapSet k v ((k', v') # rest) = (if k' = k then (k, v) # rest else (k', v') # mapSet k v rest)"

definition mapDelete :: "int \<Rightarrow> (int \<times> TTEntry) list \<Rightarrow> (int \<times> TTEntry) list" where
  "mapDelete k entries = filter (\<lambda>e. fst e \<noteq> k) entries"

definition evictOldest :: "TranspositionTable \<Rightarrow> TranspositionTable" where
  "evictOldest tt =
     (if of_nat (length (table tt)) > maxSize tt
      then (case table tt of
              [] \<Rightarrow> tt
            | (firstKey, e) # rest \<Rightarrow> tt\<lparr>table := mapDelete firstKey (table tt)\<rparr>)
      else tt)"

definition probe :: "TranspositionTable \<Rightarrow> int \<Rightarrow> TTEntry option" where
  "probe tt key = map_of (table tt) key"

definition store :: "TranspositionTable \<Rightarrow> int \<Rightarrow> int \<Rightarrow> number \<Rightarrow> ttFlag \<Rightarrow> string option
    \<Rightarrow> TranspositionTable" where
  "store tt key depth score flag best =
     (let entry = \<lparr>zobristKey = key, entryDepth = depth, entryScore = score,
                   entryFlag = flag, bestMoveNotation = best\<rparr>
      in case probe tt key of
        Some existing \<Rightarrow>
          if entryDepth existing > depth then tt
          else evictOldest (tt\<lparr>table := mapSet key entry (table tt)\<rparr>)
      | None \<Rightarrow> evictOldest (tt\<lparr>table := mapSet key entry (table tt)\<rparr>))"

section \<open>Search driver\<close>

definition CHECKMATE_SCORE :: rat where
  "CHECKMATE_SCORE = 100000"

record SearchStats =
  nodes :: int
  qnodes :: int
  ttHits :: int
  ttStores :: int
  cutoffs :: int
  statsDepth :: int
  timeMs :: int
  nps :: int

record SearchResult =
  bestMove :: "CompleteTurn option"
  score :: number
  depth :: int
  pvLine :: "string list"
  stats :: SearchStats

text \<open>
  The fields of a \<open>Search\<close> object, and the wall clock it reads: \<open>clock i\<close> is what the
  \<open>i\<close>-th call of \<open>Date.now()\<close> returns, \<open>ticks\<close> counts the calls made so far.
\<close>

record Search =
  transpositionTable :: TranspositionTable
  searchStats :: SearchStats
  startTime :: int
  timeLimit :: int
  aborted :: bool
  clock :: "nat \<Rightarrow> int"
  ticks :: nat

definition dateNow :: "Search \<Rightarrow> int \<times> Search" where
  "dateNow s = (clock s (ticks s), s\<lparr>ticks := ticks s + 1\<rparr>)"

definition createEmptyStats :: SearchStats where
  "createEmptyStats = \<lparr>nodes = 0, qnodes = 0, ttHits = 0, ttStores = 0, cutoffs = 0,
                        statsDepth = 0, timeMs = 0, nps = 0\<rparr>"

definition shouldAbort :: "Search \<Rightarrow> bool \<times> Search" where
  "shouldAbort s =
     (if aborted s then (True, s)
      else let (now, s1) = dateNow s;
               elapsed = now - startTime s
           in if elapsed \<ge> timeLimit s then (True, s1\<lparr>aborted := True\<rparr>) else (False, s1))"

definition finalizeStats :: "SearchStats \<Rightarrow> int \<Rightarrow> Search \<Rightarrow> SearchStats \<times> Search" where
  "finalizeStats st d s =
     (let (now, s1) = dateNow s;
          t = now - startTime s;
          n = (if t > 0 then (nodes st * 1000) div t else 0)
      in (st\<lparr>statsDepth := d, timeMs := t, nps := n\<rparr>, s1))"

text \<open>
  \<open>searchRoot\<close> first generates the legal turns and answers at once when there are none;
  an error thrown by the generator is not caught anywhere in the search and leaves it.
  What \<open>searchRoot\<close> does with a list that is not empty (move ordering, the alpha-beta
  loop with quiescence and evaluation, the random pick among the top moves, the table
  store) is the parameter \<open>body\<close>: any function of the turns and the search state, so that
  what is proved below holds whatever that part computes, throws, reads from the clock or
  sets in the state.
\<close>

type_synonym rootBody =
  "GameState \<Rightarrow> color \<Rightarrow> int \<Rightarrow> CompleteTurn list \<Rightarrow> Search
   \<Rightarrow> error + SearchResult \<times> Search"

definition searchRoot :: "rootBody \<Rightarrow> GameState \<Rightarrow> color \<Rightarrow> int \<Rightarrow> Search
    \<Rightarrow> error + SearchResult \<times> Search" where
  "searchRoot body gameState currentPlayer d s =
     (case generateAllLegalTurns gameState currentPlayer of
        Inl e \<Rightarrow> Inl e
      | Inr allMoves \<Rightarrow>
          if length allMoves = 0
          then Inr (\<lparr>bestMove = None, score = Num (- CHECKMATE_SCORE), depth = d,
                     pvLine = [], stats = searchStats s\<rparr>, s)
          else body gameState currentPlayer d allMoves s)"

text \<open>The iterative-deepening loop, from \<open>depth\<close> up to \<open>maxDepth\<close>.\<close>

function deepen :: "rootBody \<Rightarrow> GameState \<Rightarrow> color \<Rightarrow> int \<Rightarrow> int \<Rightarrow> SearchResult option
    \<Rightarrow> Search \<Rightarrow> error + SearchResult option \<times> Search" where
  "deepen body gameState currentPlayer maxDepth d bestResult s =
     (if d \<le> maxDepth then
        (case shouldAbort s of
           (True, s1) \<Rightarrow> Inr (bestResult, s1)
         | (False, s1) \<Rightarrow>
            (case searchRoot body gameState currentPlayer d s1 of
               Inl e \<Rightarrow> Inl e
             | Inr (result, s2) \<Rightarrow>
              (case (if \<not> aborted s2
                     then (case finalizeStats (searchStats s2) d s2 of
                             (st, s3) \<Rightarrow> (Some (result\<lparr>stats := st\<rparr>), s3))
                     else (bestResult, s2)) of
                 (bestResult', s3) \<Rightarrow>
                   if (case bestResult' of
                         None \<Rightarrow> False
                       | Some r \<Rightarrow> exceeds (absNumber (score r)) (CHECKMATE_SCORE / 2))
                   then Inr (bestResult', s3)
                   else deepen body gameState currentPlayer maxDepth (d + 1) bestResult' s3)))
      else Inr (bestResult, s))"
  by pat_completeness auto
termination
  by (relation "measure (\<lambda>(body, g, c, maxDepth, d, best, s). nat (maxDepth + 1 - d))") auto

definition startSearch :: "int \<Rightarrow> Search \<Rightarrow> Search" where
  "startSearch timeLimitMs s =
     (let (now, s1) = dateNow s
      in s1\<lparr>startTime := now, timeLimit := timeLimitMs, aborted := False,
            searchStats := createEmptyStats\<rparr>)"

definition searchIterativeDeepening :: "rootBody \<Rightarrow> GameState \<Rightarrow> color \<Rightarrow> int \<Rightarrow> int
    \<Rightarrow> Search \<Rightarrow> error + SearchResult \<times> Search" where
  "searchIterativeDeepening body gameState currentPlayer maxDepth timeLimitMs s =
     (case deepen body gameState currentPlayer maxDepth 1 None (startSearch timeLimitMs s) of
        Inl e \<Rightarrow> Inl e
      | Inr (Some bestResult, s1) \<Rightarrow> Inr (bestResult, s1)
      | Inr (None, s1) \<Rightarrow>
          (case generateAllLegalTurns gameState currentPlayer of
             Inl e \<Rightarrow> Inl e
           | Inr allMoves \<Rightarrow>
               (let (st, s2) = finalizeStats (searchStats s1) 0 s1
                in Inr (\<lparr>bestMove = (case allMoves of [] \<Rightarrow> None | first # rest \<Rightarrow> Some first),
                         score = Num 0, depth = 0, pvLine = [], stats = st\<rparr>, s2))))"

section \<open>Counting pieces\<close>

text \<open>
  \<open>Logic.checkWinCondition\<close> names the other side \<open>opponentColor\<close> and counts the pieces of
  a side by filtering \<open>Board.ALL_SQUARES\<close>.
\<close>

definition opponentOf :: "color \<Rightarrow> color" where
  "opponentOf playerColor = (if playerColor = White then Black else White)"

definition countPieces :: "BoardState \<Rightarrow> color \<Rightarrow> nat" where
  "countPieces boardState c = length (filter (hasColor boardState c) ALL_SQUARES)"

section \<open>The board in coordinates\<close>

text \<open>
  The rows of the cross in file and rank numbers: rank 1 and 16 hold files F..G, rank 2 and
  15 files C..J, rank 3 and 14 files B..K, ranks 4 to 13 all files A..L.
\<close>

definition rowLo :: "int \<Rightarrow> int" where
  "rowLo r = (if r = 1 \<or> r = 16 then 5 else if r = 2 \<or> r = 15 then 2
              else if r = 3 \<or> r = 14 then 1 else 0)"

definition rowHi :: "int \<Rightarrow> int" where
  "rowHi r = (if r = 1 \<or> r = 16 then 6 else if r = 2 \<or> r = 15 then 9
              else if r = 3 \<or> r = 14 then 10 else 11)"

definition onBoard :: "int \<Rightarrow> int \<Rightarrow> bool" where
  "onBoard f r \<longleftrightarrow> 1 \<le> r \<and> r \<le> 16 \<and> rowLo r \<le> f \<and> f \<le> rowHi r"

definition boardCoords :: "(int \<times> int) list" where
  "boardCoords = concat (map (\<lambda>r. map (\<lambda>f. (f, r)) [rowLo r..rowHi r]) [1..16])"

section \<open>Concrete positions and tables\<close>

text \<open>Inputs on which the theorems below are instantiated and the functions evaluated.\<close>

definition position :: "(square \<times> piece) list \<Rightarrow> GameState" where
  "position ps = \<lparr>white_castle_moves = 0, black_castle_moves = 0, board_state = map_of ps\<rparr>"

definition whiteMan :: piece where
  "whiteMan = \<lparr>ptype = Man, pcolor = White\<rparr>"

definition whiteKnight :: piece where
  "whiteKnight = \<lparr>ptype = Knight, pcolor = White\<rparr>"

definition blackMan :: piece where
  "blackMan = \<lparr>ptype = Man, pcolor = Black\<rparr>"



definition emptyGame :: GameState where
  "emptyGame = position []"

definition oldEntry :: TTEntry where
  "oldEntry = \<lparr>zobristKey = 5, entryDepth = 3, entryScore = Num 100, entryFlag = Exact,
                bestMoveNotation = Some ''E6-E7''\<rparr>"

definition smallTable :: TranspositionTable where
  "smallTable = \<lparr>table = [(5, oldEntry)], maxSize = 10\<rparr>"

text \<open>
  The position of the repository's engine test \<open>should prefer captures when
  available\<close>: a white knight on E6 can jump the black man on F7 and land on G8; A4 and L13 hold a spare man
  of each side.
\<close>

definition captureState :: GameState where
  "captureState = position [(''E6'', whiteKnight), (''F7'', blackMan),
                            (''A4'', whiteMan), (''L13'', blackMan)]"

text \<open>
  A white knight on F12 with black men on F13 and F15 jumps to F14 and then into the castle
  square F16; from F16 the black man on G15 could be jumped next. \<open>afterFirstJump\<close> is the
  board after the first of the two jumps.
\<close>

definition castleJump :: GameState where
  "castleJump = position [(''F12'', whiteKnight), (''F13'', blackMan), (''F15'', blackMan),
                          (''G15'', blackMan)]"


text \<open>A white man that stands in the black castle, on F16.\<close>

definition castleOccupant :: GameState where
  "castleOccupant = position [(''F16'', whiteMan)]"


text \<open>
  A search object before its first search, with a clock that advances by one millisecond
  per reading, and a root search body that returns the first turn unsearched. The
  constructor leaves the time limit at \<open>Infinity\<close>; every search sets it before reading
  it, so the value here does not matter.
\<close>

definition freshSearch :: Search where
  "freshSearch = \<lparr>transpositionTable = newTranspositionTable 128,
                   searchStats = createEmptyStats, startTime = 0, timeLimit = 0,
                   aborted = False, clock = int, ticks = 0\<rparr>"

definition firstTurnBody :: rootBody where
  "firstTurnBody gameState currentPlayer d allMoves s =
     Inr (\<lparr>bestMove = Some (hd allMoves), score = Num 0, depth = d, pvLine = [],
           stats = searchStats s\<rparr>, s)"

section \<open>Proof setup\<close>

text \<open>
  The functions defined by general recursion are unfolded by hand, one call at a time.
\<close>

declare decimal.simps [simp del]

declare exploreTurnRecursive.simps [simp del]

declare deepen.simps [simp del]


declare bitLength.simps [simp del]
section \<open>Square names and coordinates\<close>

lemma onBoard_coords: "onBoard f r \<longleftrightarrow> (f, r) \<in> set boardCoords"
  by (force simp: onBoard_def boardCoords_def)

lemma ALL_SQUARES_coords: "ALL_SQUARES = map (\<lambda>(f, r). toSquare f r) boardCoords"
  by code_simp

lemma length_ALL_SQUARES: "length ALL_SQUARES = 160"
  by code_simp

lemma parse_toSquare_grid:
  "list_all (\<lambda>f. list_all (\<lambda>r. parseSquare (toSquare f r) = Some (f, r)) [0..17]) [-1..12]"
  by code_simp

lemma parse_toSquare_near:
  assumes "- 1 \<le> f" "f \<le> 12" "0 \<le> r" "r \<le> 17"
  shows "parseSquare (toSquare f r) = Some (f, r)"
proof -
  have "f \<in> set [-1..12]" "r \<in> set [0..17]" using assms by auto
  with parse_toSquare_grid show ?thesis
    unfolding list_all_iff by blast
qed

lemma onBoard_bounds: "onBoard f r \<Longrightarrow> 0 \<le> f \<and> f \<le> 11 \<and> 1 \<le> r \<and> r \<le> 16"
  by (auto simp: onBoard_def rowLo_def rowHi_def split: if_splits)

lemma parse_toSquare_onBoard: "onBoard f r \<Longrightarrow> parseSquare (toSquare f r) = Some (f, r)"
  using onBoard_bounds [of f r] by (intro parse_toSquare_near) auto

lemma isValidSquare_coords:
  "isValidSquare s \<longleftrightarrow> (\<exists>f r. onBoard f r \<and> s = toSquare f r)"
  unfolding isValidSquare_def ALL_SQUARES_coords onBoard_coords by force

lemma isValidSquare_fast:
  "isValidSquare s \<longleftrightarrow>
     (case parseSquare s of None \<Rightarrow> False | Some (f, r) \<Rightarrow> onBoard f r \<and> toSquare f r = s)"
  by (auto simp: isValidSquare_coords parse_toSquare_onBoard split: option.splits)

lemma valid_square_parse:
  assumes "s \<in> set ALL_SQUARES"
  obtains f r where "parseSquare s = Some (f, r)" "onBoard f r" "s = toSquare f r"
  using assms isValidSquare_coords [of s] parse_toSquare_onBoard
  unfolding isValidSquare_def by blast

lemma distinct_boardCoords: "distinct boardCoords"
  by code_simp

lemma distinct_ALL_SQUARES: "distinct ALL_SQUARES"
proof -
  have "inj_on (\<lambda>(f, r). toSquare f r) (set boardCoords)"
  proof (rule inj_on_inverseI [where g = "\<lambda>s. the (parseSquare s)"])
    fix x assume x: "x \<in> set boardCoords"
    obtain f r where fr: "x = (f, r)" by (cases x) auto
    then show "the (parseSquare (case x of (f, r) \<Rightarrow> toSquare f r)) = x"
      using x parse_toSquare_onBoard [of f r] by (simp add: onBoard_coords)
  qed
  then show ?thesis
    unfolding ALL_SQUARES_coords by (simp add: distinct_map distinct_boardCoords)
qed

text \<open>
  From here on the evaluation of \<open>isValidSquare\<close> on a concrete name goes through its
  coordinates instead of through the list of 160 names.
\<close>

declare isValidSquare_fast [code]

lemma getAdjacentSquare_valid: "getAdjacentSquare s d = Some t \<Longrightarrow> t \<in> set ALL_SQUARES"
  by (auto simp: getAdjacentSquare_def isValidSquare_def Let_def split: option.splits if_splits)

lemma getAdjacentSquare_parse:
  assumes "parseSquare s = Some (f, r)" "onBoard f r" "d \<in> set DIRECTIONS"
    and "getAdjacentSquare s d = Some t"
  shows "parseSquare t = Some (f + fst d, r + snd d)"
proof -
  have d: "\<bar>fst d\<bar> \<le> 1" "\<bar>snd d\<bar> \<le> 1" using assms(3) by (auto simp: DIRECTIONS_def)
  have t: "t = toSquare (f + fst d) (r + snd d)"
    using assms(1,4) by (auto simp: getAdjacentSquare_def Let_def split: if_splits)
  show ?thesis unfolding t
    using onBoard_bounds [OF assms(2)] d by (intro parse_toSquare_near) auto
qed

lemma getAdjacentSquare_isOneAdjacent:
  assumes "s \<in> set ALL_SQUARES" "d \<in> set DIRECTIONS" "getAdjacentSquare s d = Some t"
  shows "isOneAdjacent s t"
proof -
  from assms(1) obtain f r where p: "parseSquare s = Some (f, r)" "onBoard f r"
    by (rule valid_square_parse)
  from getAdjacentSquare_parse [OF p assms(2,3)]
  have "parseSquare t = Some (f + fst d, r + snd d)" .
  with p(1) assms(2) show ?thesis
    by (auto simp: isOneAdjacent_def DIRECTIONS_def)
qed

lemma isTwoAdjacent_not_one: "isTwoAdjacent a b \<Longrightarrow> \<not> isOneAdjacent a b"
  by (auto simp: isTwoAdjacent_def isOneAdjacent_def Let_def split: option.splits)

section \<open>Steps\<close>

lemma isValidJump_SomeD:
  "isValidJump a t b c = Some m \<Longrightarrow>
     isTwoAdjacent a t \<and> m \<in> set ALL_SQUARES \<and> (\<exists>p. b m = Some p \<and> pcolor p \<noteq> c) \<and> b t = None"
  by (auto simp: isValidJump_def split: if_splits option.splits dest: getAdjacentSquare_valid)

lemma isValidCanter_SomeD:
  "isValidCanter a t b c = Some m \<Longrightarrow>
     isTwoAdjacent a t \<and> m \<in> set ALL_SQUARES \<and> (\<exists>p. b m = Some p \<and> pcolor p = c) \<and> b t = None"
  by (auto simp: isValidCanter_def split: if_splits option.splits dest: getAdjacentSquare_valid)

lemma executeStep_SuccessE:
  assumes "executeStep to b ts c = StepSuccess b' ts' nexts msg"
  obtains piece where
    "moves ts \<noteq> []" "b (last (moves ts)) = Some piece" "pcolor piece = c"
    "isValidPlainMove (last (moves ts)) to b
       \<or> isValidCanter (last (moves ts)) to b c \<noteq> None
       \<or> isValidJump (last (moves ts)) to b c \<noteq> None"
    "moves ts' = moves ts @ [to]"
    "capturedSquares ts' = (case isValidJump (last (moves ts)) to b c of
        None \<Rightarrow> capturedSquares ts | Some m \<Rightarrow> capturedSquares ts @ [m])"
    "b' = (case isValidJump (last (moves ts)) to b c of
        None \<Rightarrow> b(to := Some piece, last (moves ts) := None)
      | Some m \<Rightarrow> b(to := Some piece, last (moves ts) := None, m := None))"
  using assms
  by (auto simp: executeStep_def Let_def split: option.splits if_splits)




lemma twoSteps_valid: "t \<in> set (twoSteps s) \<Longrightarrow> t \<in> set ALL_SQUARES"
  by (auto simp: twoSteps_def split: option.splits intro: getAdjacentSquare_valid [OF sym])

section \<open>The generator on the moves it is given\<close>

text \<open>
  Every first call of \<open>exploreTurnRecursive\<close> is made for a piece of the side to move and
  with \<open>move.to\<close>, which is undefined: \<open>executeStep\<close> finds the piece and then throws.
\<close>

lemma executeStepCall_undefined:
  assumes "moves ts \<noteq> []" "hasColor b c (last (moves ts))"
  shows "executeStepCall None b ts c = Inl TypeError"
  using assms by (auto simp: executeStepCall_def hasColor_def split: option.splits)

lemma explore_undefined:
  assumes "hasColor b c sq"
  shows "exploreTurnRecursive None b (createEmptyTurnState sq) c f 0 = Inl TypeError"
  using assms
  by (subst exploreTurnRecursive.simps)
     (simp add: executeStepCall_undefined createEmptyTurnState_def)

lemma appendAll_throws:
  fixes rounds :: "(error + 'a list) list"
  assumes "\<forall>r \<in> set rounds. r = Inr [] \<or> r = Inl TypeError"
  shows "appendAll rounds = (if Inl TypeError \<in> set rounds then Inl TypeError else Inr [])"
  using assms by (induction rounds) auto

lemma initial_moves_throw:
  assumes "hasColor b c sq"
  shows "appendAll (map (\<lambda>move.
             exploreTurnRecursive (readTo move) b (createEmptyTurnState sq) c f 0)
           (getInitialMoves sq b c))
         = (if getInitialMoves sq b c = [] then Inr [] else Inl TypeError)"
proof -
  have "map (\<lambda>move. exploreTurnRecursive (readTo move) b (createEmptyTurnState sq) c f 0)
            (getInitialMoves sq b c)
        = map (\<lambda>move. Inl TypeError) (getInitialMoves sq b c)"
    using assms by (simp add: readTo_def explore_undefined)
  then show ?thesis
    by (cases "getInitialMoves sq b c") simp_all
qed

lemma allTurns_throws:
  "allTurns b c
     = (if list_ex (\<lambda>sq. hasColor b c sq \<and> length (getInitialMoves sq b c) > 0) ALL_SQUARES
        then Inl TypeError else Inr [])"
proof -
  let ?f = "length (checkFirstMovePossibleJumps b c) > 0"
  let ?round = "\<lambda>sq. if \<not> hasColor b c sq then Inr []
           else appendAll (map (\<lambda>move.
                  exploreTurnRecursive (readTo move) b (createEmptyTurnState sq) c ?f 0)
                (getInitialMoves sq b c))"
  have round: "?round sq = (if hasColor b c sq \<and> length (getInitialMoves sq b c) > 0
                            then Inl TypeError else Inr [])" for sq
    by (simp add: initial_moves_throw)
  let ?own = "\<lambda>sq. hasColor b c sq \<and> length (getInitialMoves sq b c) > 0"
  let ?rounds = "map (\<lambda>sq. if ?own sq then Inl TypeError
                          else (Inr [] :: error + CompleteTurn list)) ALL_SQUARES"
  have "allTurns b c = appendAll (map ?round ALL_SQUARES)"
    unfolding allTurns_def Let_def ..
  also have "\<dots> = appendAll ?rounds"
    unfolding round ..
  also have "\<dots> = (if Inl TypeError \<in> set ?rounds then Inl TypeError else Inr [])"
    by (rule appendAll_throws) (auto simp: image_iff)
  also have "Inl TypeError \<in> set ?rounds \<longleftrightarrow> list_ex ?own ALL_SQUARES"
    by (auto simp: list_ex_iff image_iff)
  finally show ?thesis .
qed

text \<open>
  So the generator returns only when no piece of the side has an initial move, and then
  it returns the empty list; in every other position it throws.
\<close>

lemma generateAllLegalTurns_throws:
  "generateAllLegalTurns g c = (if hasLegalMoves g c then Inl TypeError else Inr [])"
  by (simp add: generateAllLegalTurns_def allTurns_throws hasLegalMoves_def)


section \<open>Piece counts along a step\<close>

lemma getInitialMoves_valid:
  "m \<in> set (getInitialMoves sq b s) \<Longrightarrow> m \<in> set ALL_SQUARES"
  by (auto simp: getInitialMoves_def checkFirstMovePossibleJumps_def Let_def
           split: if_splits option.splits
           dest: twoSteps_valid intro: getAdjacentSquare_valid [OF sym])

lemma filter_count_update:
  assumes "distinct xs"
  shows "int (length (filter (hasColor (b(x := v)) c) xs))
       = int (length (filter (hasColor b c) xs))
         + (if x \<in> set xs
            then of_bool (case v of None \<Rightarrow> False | Some p \<Rightarrow> pcolor p = c)
                 - of_bool (hasColor b c x)
            else 0)"
  using assms by (induction xs) (auto simp: hasColor_def)

lemma countPieces_update:
  "x \<in> set ALL_SQUARES \<Longrightarrow>
     int (countPieces (b(x := v)) c)
       = int (countPieces b c)
         + of_bool (case v of None \<Rightarrow> False | Some p \<Rightarrow> pcolor p = c)
         - of_bool (hasColor b c x)"
  using filter_count_update [OF distinct_ALL_SQUARES, of b x v c]
  by (simp add: countPieces_def)

lemma opponentOf_neq [simp]: "opponentOf s \<noteq> s" "s \<noteq> opponentOf s"
  by (auto simp: opponentOf_def)

lemma not_own_is_opponent: "c \<noteq> s \<longleftrightarrow> c = opponentOf s"
  by (cases c; cases s) (auto simp: opponentOf_def)

lemma target_empty:
  assumes "isValidPlainMove a t b \<or> isValidCanter a t b c \<noteq> None \<or> isValidJump a t b c \<noteq> None"
  shows "b t = None"
  using assms by (auto simp: isValidPlainMove_def dest: isValidCanter_SomeD isValidJump_SomeD)

lemma executeStep_counts:
  assumes ok: "executeStep to b ts s = StepSuccess b' ts' nexts msg"
    and to: "to \<in> set ALL_SQUARES" and fr: "last (moves ts) \<in> set ALL_SQUARES"
  shows "int (countPieces b' s) = int (countPieces b s)"
    and "int (countPieces b' (opponentOf s)) + int (length (capturedSquares ts'))
         = int (countPieces b (opponentOf s)) + int (length (capturedSquares ts))"
proof -
  let ?from = "last (moves ts)"
  from ok obtain piece where p: "b ?from = Some piece" "pcolor piece = s"
    and valid: "isValidPlainMove ?from to b \<or> isValidCanter ?from to b s \<noteq> None
                \<or> isValidJump ?from to b s \<noteq> None"
    and cap: "capturedSquares ts' = (case isValidJump ?from to b s of
        None \<Rightarrow> capturedSquares ts | Some m \<Rightarrow> capturedSquares ts @ [m])"
    and b': "b' = (case isValidJump ?from to b s of
        None \<Rightarrow> b(to := Some piece, ?from := None)
      | Some m \<Rightarrow> b(to := Some piece, ?from := None, m := None))"
    by (rule executeStep_SuccessE)
  have empty: "b to = None" using valid by (rule target_empty)
  have neq: "?from \<noteq> to" using p empty by auto
  let ?moved = "b(to := Some piece, ?from := None)"
  have own: "int (countPieces ?moved s) = int (countPieces b s)"
    using to fr p empty neq by (simp add: countPieces_update hasColor_def)
  have opp: "int (countPieces ?moved (opponentOf s)) = int (countPieces b (opponentOf s))"
    using to fr p empty neq by (simp add: countPieces_update hasColor_def)
  have "int (countPieces b' s) = int (countPieces b s)
      \<and> int (countPieces b' (opponentOf s)) + int (length (capturedSquares ts'))
         = int (countPieces b (opponentOf s)) + int (length (capturedSquares ts))"
  proof (cases "isValidJump ?from to b s")
    case None
    then show ?thesis
      using own opp by (simp add: b' cap)
  next
    case (Some m)
    from isValidJump_SomeD [OF Some] obtain q where
      m: "m \<in> set ALL_SQUARES" "b m = Some q" "pcolor q \<noteq> s" by blast
    have mneq: "m \<noteq> to" "m \<noteq> ?from" using m p empty by auto
    have q: "pcolor q = opponentOf s" using m(3) by (simp add: not_own_is_opponent)
    have "int (countPieces b' s) = int (countPieces b s)"
      using m mneq own by (simp add: b' Some countPieces_update hasColor_def)
    moreover have "int (countPieces b' (opponentOf s)) + int (length (capturedSquares ts'))
         = int (countPieces b (opponentOf s)) + int (length (capturedSquares ts))"
      using m mneq opp q by (simp add: b' cap Some countPieces_update hasColor_def)
    ultimately show ?thesis by simp
  qed
  then show "int (countPieces b' s) = int (countPieces b s)"
    and "int (countPieces b' (opponentOf s)) + int (length (capturedSquares ts'))
         = int (countPieces b (opponentOf s)) + int (length (capturedSquares ts))"
    by simp_all
qed

section \<open>What the generator returns\<close>

text \<open>
  Claim C5. The generator is not total on legal inputs. \<open>Logic.getInitialMoves\<close> and
  \<open>Logic.executeStep\<close> return their moves as strings, and the generator passes
  \<open>move.to\<close> of each, which is undefined, to \<open>executeStep\<close>, where
  \<open>Coordinates.parseSquare\<close> throws a \<open>TypeError\<close>. For every game state and side:
  if some piece of the side has an initial move, \<open>generateAllLegalTurns\<close> throws; if none
  has, it returns the empty list.
\<close>

theorem generator_throws:
  "generateAllLegalTurns g c = (if hasLegalMoves g c then Inl TypeError else Inr [])"
  by (rule generateAllLegalTurns_throws)

lemma captureState_moves: "hasLegalMoves captureState White"
  by code_simp

lemma emptyGame_no_moves: "\<not> hasLegalMoves emptyGame White"
  by code_simp

lemma castleOccupant_black_no_moves: "\<not> hasLegalMoves castleOccupant Black"
  by code_simp







section \<open>The search driver\<close>

lemma first_poll:
  "shouldAbort (startSearch timeLimitMs s)
     = (if timeLimitMs \<le> clock s (ticks s + 1) - clock s (ticks s)
        then (True, (startSearch timeLimitMs s)\<lparr>ticks := ticks s + 2, aborted := True\<rparr>)
        else (False, (startSearch timeLimitMs s)\<lparr>ticks := ticks s + 2\<rparr>))"
  by (simp add: shouldAbort_def startSearch_def dateNow_def Let_def)

lemma shouldAbort_False: "shouldAbort s = (False, s') \<Longrightarrow> \<not> aborted s'"
  by (auto simp: shouldAbort_def dateNow_def Let_def split: if_splits)

lemma freshSearch_clock:
  "clock freshSearch (ticks freshSearch + 1) - clock freshSearch (ticks freshSearch) = 1"
  by (simp add: freshSearch_def)

lemma search_without_moves:
  assumes "generateAllLegalTurns g c = Inr []" "1 \<le> maxDepth"
    and "clock s (ticks s + 1) - clock s (ticks s) < timeLimitMs"
  shows "\<exists>r s'. searchIterativeDeepening body g c maxDepth timeLimitMs s = Inr (r, s')
       \<and> bestMove r = None \<and> score r = Num (- 100000) \<and> depth r = 1 \<and> pvLine r = []"
proof -
  let ?s0 = "startSearch timeLimitMs s"
  define s1 where "s1 = snd (shouldAbort ?s0)"
  let ?r = "\<lparr>bestMove = None, score = Num (- CHECKMATE_SCORE), depth = 1, pvLine = [],
             stats = searchStats s1\<rparr>"
  have poll: "shouldAbort ?s0 = (False, s1)"
    using assms(3) by (simp add: s1_def first_poll)
  have running: "\<not> aborted s1"
    using poll by (rule shouldAbort_False)
  have root: "searchRoot body g c 1 s1 = Inr (?r, s1)"
    using assms(1) by (simp add: searchRoot_def)
  obtain st s3 where fin: "finalizeStats (searchStats s1) 1 s1 = (st, s3)"
    by (cases "finalizeStats (searchStats s1) 1 s1") auto
  have "deepen body g c maxDepth 1 None ?s0 = Inr (Some (?r\<lparr>stats := st\<rparr>), s3)"
    by (subst deepen.simps) (simp add: assms(2) poll root running fin CHECKMATE_SCORE_def)
  then show ?thesis
    by (simp add: searchIterativeDeepening_def CHECKMATE_SCORE_def)
qed

text \<open>
  Claim C6, as the code has it. For a position and side with no legal turns, a maximal
  depth of at least 1 and a deadline that the first poll does not see passed,
  \<open>searchIterativeDeepening\<close> returns a result with a null best move, the score -100000
  and an empty principal variation, and reports depth 1: \<open>searchRoot\<close> answers with the
  depth it was called at, which is that of the first iteration, and the mate score ends
  the loop there.
\<close>

theorem no_moves_result:
  assumes "generateAllLegalTurns g c = Inr []" "1 \<le> maxDepth"
    and "clock s (ticks s + 1) - clock s (ticks s) < timeLimitMs"
  shows "\<exists>r s'. searchIterativeDeepening body g c maxDepth timeLimitMs s = Inr (r, s')
       \<and> bestMove r = None \<and> score r = Num (- 100000) \<and> depth r = 1 \<and> pvLine r = []"
  using assms by (rule search_without_moves)

theorem no_moves_result_witness:
  "generateAllLegalTurns castleOccupant Black = Inr [] \<and> (1::int) \<le> 3
   \<and> clock freshSearch (ticks freshSearch + 1) - clock freshSearch (ticks freshSearch) < 5000
   \<and> (\<exists>r s'. searchIterativeDeepening firstTurnBody castleOccupant Black 3 5000 freshSearch
                 = Inr (r, s')
          \<and> bestMove r = None \<and> score r = Num (- 100000) \<and> depth r = 1 \<and> pvLine r = [])"
proof -
  have none: "generateAllLegalTurns castleOccupant Black = Inr []"
    by (simp add: generateAllLegalTurns_throws castleOccupant_black_no_moves)
  have time: "clock freshSearch (ticks freshSearch + 1) - clock freshSearch (ticks freshSearch)
        < 5000"
    using freshSearch_clock by simp
  from no_moves_result [OF none _ time, of 3 firstTurnBody] none time
  show ?thesis by simp
qed

text \<open>
  The depth 0 of the specification is not what is returned: on the empty board, with one
  iteration allowed and five seconds on the clock, the search returns a result whose
  depth is not 0.
\<close>

theorem no_moves_depth_counterexample:
  "generateAllLegalTurns emptyGame White = Inr []
   \<and> (\<exists>r s'. searchIterativeDeepening firstTurnBody emptyGame White 1 5000 freshSearch
                 = Inr (r, s')
          \<and> depth r \<noteq> 0)"
proof -
  have none: "generateAllLegalTurns emptyGame White = Inr []"
    by (simp add: generateAllLegalTurns_throws emptyGame_no_moves)
  have time: "clock freshSearch (ticks freshSearch + 1) - clock freshSearch (ticks freshSearch)
        < 5000"
    using freshSearch_clock by simp
  from search_without_moves [OF none _ time, of 1 firstTurnBody]
  obtain r s' where
    "searchIterativeDeepening firstTurnBody emptyGame White 1 5000 freshSearch = Inr (r, s')"
    "depth r = 1"
    by auto
  then have "searchIterativeDeepening firstTurnBody emptyGame White 1 5000 freshSearch
          = Inr (r, s') \<and> depth r \<noteq> 0"
    by simp
  with none show ?thesis by blast
qed

text \<open>
  When the first poll of the deadline already sees it passed, the loop ends before any
  root search and the fallback asks the generator for the turns. The generator throws
  whenever a piece has an initial move, and nothing catches the error; only when no piece
  can move is there a result, with a null best move.
\<close>

lemma deepen_first_poll:
  assumes "fst (shouldAbort s0)"
  shows "\<exists>s1. deepen body g c maxDepth 1 None s0 = Inr (None, s1)"
proof (cases "1 \<le> maxDepth")
  case False
  then show ?thesis by (simp add: deepen.simps [of _ _ _ _ 1])
next
  case True
  from assms obtain s1 where "shouldAbort s0 = (True, s1)"
    by (cases "shouldAbort s0") auto
  then show ?thesis
    by (simp add: deepen.simps [of _ _ _ _ 1])
qed

lemma deadline_passed:
  assumes "fst (shouldAbort (startSearch timeLimitMs s))"
  shows "if hasLegalMoves g c
         then searchIterativeDeepening body g c maxDepth timeLimitMs s = Inl TypeError
         else (\<exists>r s'. searchIterativeDeepening body g c maxDepth timeLimitMs s = Inr (r, s')
                \<and> bestMove r = None \<and> score r = Num 0 \<and> depth r = 0 \<and> pvLine r = [])"
proof -
  from deepen_first_poll [OF assms] obtain s1
    where "deepen body g c maxDepth 1 None (startSearch timeLimitMs s) = Inr (None, s1)"
    by blast
  then show ?thesis
    by (simp add: searchIterativeDeepening_def generateAllLegalTurns_throws Let_def
          split: prod.splits)
qed

text \<open>
  Claim C9. With a time limit of 0 the first poll sees the deadline passed. In the
  position \<open>captureState\<close>, where white has a legal first move, \<open>searchIterativeDeepening\<close>
  does not return the first generated turn with score 0 and depth 0: the generator
  called by the fallback throws, and so does the search.
\<close>

theorem deadline_fallback_throws:
  "fst (shouldAbort (startSearch 0 freshSearch))
   \<and> hasLegalMoves captureState White
   \<and> searchIterativeDeepening firstTurnBody captureState White 3 0 freshSearch
        = Inl TypeError"
proof -
  have poll: "fst (shouldAbort (startSearch 0 freshSearch))"
    by (simp add: first_poll freshSearch_def)
  from deadline_passed [OF poll, of captureState White firstTurnBody 3] poll
  show ?thesis
    by (simp add: captureState_moves)
qed

section \<open>Castle proximity\<close>

lemma castle_coords:
  "parseSquare ''F1'' = Some (5, 1)" "parseSquare ''G1'' = Some (6, 1)"
  "parseSquare ''F16'' = Some (5, 16)" "parseSquare ''G16'' = Some (6, 16)"
  by code_simp+

lemma minCastleDistance_pair:
  assumes "parseSquare a = Some p" "parseSquare b = Some q"
  shows "minCastleDistance x [a, b] = enat (min (manhattan x p) (manhattan x q))"
  using assms by (simp add: minCastleDistance_def min_def)

lemma nearest_pair:
  "nearestEnemyCastle sq c
     = min (manhattan (the (parseSquare sq)) (the (parseSquare (hd (oppCastleOf c)))))
           (manhattan (the (parseSquare sq)) (the (parseSquare (hd (tl (oppCastleOf c))))))"
  by (cases c) (simp_all add: nearestEnemyCastle_def oppCastleOf_def WHITE_CASTLE_def BLACK_CASTLE_def)

text \<open>
  The three products in double arithmetic. The double of 0.66 lies above 0.66 and 40
  times it rounds up, to the double above the one nearest to 26.4; the program prints it
  as 26.400000000000002. Likewise 40 * 0.33 is the double printed as
  13.200000000000001. The product 40 * 0.15 rounds to 6.
\<close>

lemma stage_products:
  "timesDouble 40 (toDouble (66 / 100)) = 7430939385161319 / 2 ^ 48"
  "timesDouble 40 (toDouble (33 / 100)) = 7430939385161319 / 2 ^ 49"
  "timesDouble 40 (toDouble (15 / 100)) = 6"
  by code_simp+

lemma nearest_doubles:
  "toDouble (132 / 5) = 7430939385161318 / 2 ^ 48"
  "toDouble (66 / 5) = 7430939385161318 / 2 ^ 49"
  by code_simp+

text \<open>Some doubles one knows: 40 and 0.5 are exact, 0.1 is \<open>3602879701896397 / 2 ^ 55\<close>.\<close>

lemma toDouble_examples:
  "toDouble 40 = 40" "toDouble (1 / 2) = 1 / 2"
  "toDouble (1 / 10) = 3602879701896397 / 2 ^ 55"
  "toDouble (66 / 100) = 5944751508129055 / 2 ^ 53"
  by code_simp+

text \<open>
  Claim C8, as the code has it. For a piece on a square of the board, the castle-proximity
  bonus is 40 when the Manhattan distance to the nearest square of the enemy castle is at
  most 2, the double product 40 * 0.66 when it is at most 4, the double product 40 * 0.33
  when it is at most 6, 6 when it is at most 8, and 0 beyond. The two products are not
  rounded to 26 and 13; they are the doubles \<open>7430939385161319 / 2 ^ 48\<close> and
  \<open>7430939385161319 / 2 ^ 49\<close>, just above 26.4 and 13.2.
\<close>

theorem castle_proximity_stages:
  assumes "sq \<in> set ALL_SQUARES"
  shows "getCastleProximityBonus sq c =
     (if nearestEnemyCastle sq c \<le> 2 then 40
      else if nearestEnemyCastle sq c \<le> 4 then 7430939385161319 / 2 ^ 48
      else if nearestEnemyCastle sq c \<le> 6 then 7430939385161319 / 2 ^ 49
      else if nearestEnemyCastle sq c \<le> 8 then 6
      else 0)"
proof -
  from assms obtain f r where p: "parseSquare sq = Some (f, r)"
    by (rule valid_square_parse)
  have m: "minCastleDistance (f, r) (oppCastleOf c) = enat (nearestEnemyCastle sq c)"
    by (cases c)
       (simp_all add: nearest_pair p oppCastleOf_def WHITE_CASTLE_def BLACK_CASTLE_def
          minCastleDistance_pair castle_coords)
  have "getCastleProximityBonus sq c =
     (if enat (nearestEnemyCastle sq c) \<le> 2 then 40
      else if enat (nearestEnemyCastle sq c) \<le> 4 then 7430939385161319 / 2 ^ 48
      else if enat (nearestEnemyCastle sq c) \<le> 6 then 7430939385161319 / 2 ^ 49
      else if enat (nearestEnemyCastle sq c) \<le> 8 then 6
      else 0)"
    by (simp only: getCastleProximityBonus_def p option.case m Let_def
          CASTLE_PROXIMITY_BONUS_def stage_products)
  then show ?thesis
    by (simp add: numeral_eq_enat)
qed

theorem castle_proximity_stages_witness:
  "''F13'' \<in> set ALL_SQUARES \<and> nearestEnemyCastle ''F13'' White = 3
   \<and> getCastleProximityBonus ''F13'' White = 7430939385161319 / 2 ^ 48
   \<and> (132 / 5 :: rat) < 7430939385161319 / 2 ^ 48
   \<and> (7430939385161319 / 2 ^ 48 :: rat) < 132 / 5 + 1 / 10 ^ 14"
proof -
  have sq: "''F13'' \<in> set ALL_SQUARES" by code_simp
  have d: "nearestEnemyCastle ''F13'' White = 3" by code_simp
  from castle_proximity_stages [OF sq, of White] sq d show ?thesis by simp
qed

text \<open>
  The rounded stages 26 and 13 of the specification are not the values: a white piece on
  F13 is 3 away from F16 and gets more than 26.4, one on F11 is 5 away and gets more than
  13.2.
\<close>

theorem castle_proximity_counterexample:
  "nearestEnemyCastle ''F13'' White = 3 \<and> getCastleProximityBonus ''F13'' White \<noteq> 26
   \<and> nearestEnemyCastle ''F11'' White = 5 \<and> getCastleProximityBonus ''F11'' White \<noteq> 13"
  by code_simp

section \<open>Transposition table and hash\<close>

lemma hashCastle_zero: "hashCastle ks 0 h = h"
  by (simp add: hashCastle_def)

lemma hashCastle_large: "int (length ks) < n \<Longrightarrow> hashCastle ks n h = h"
  by (simp add: hashCastle_def)

lemma castleKeys_length:
  "length (whiteCastleKeys (initializeZobristKeys rnd)) = 3"
  "length (blackCastleKeys (initializeZobristKeys rnd)) = 3"
  by (simp_all add: initializeZobristKeys_def Let_def)

text \<open>
  Claim C10. \<open>initializeZobristKeys\<close> draws three keys per castle counter, and
  \<open>computeHash\<close> mixes a counter in only when it lies in 1..3. So a position whose white
  (or black) castle-move counter is any value above 3 has the hash of the position that
  differs from it only in having that counter at 0, for either side to move.
\<close>

theorem computeHash_large_counter:
  "(white_castle_moves P = 0 \<and> 3 < n \<longrightarrow>
      computeHash (initializeZobristKeys rnd) (P\<lparr>white_castle_moves := n\<rparr>) s
        = computeHash (initializeZobristKeys rnd) P s)
   \<and> (black_castle_moves P = 0 \<and> 3 < n \<longrightarrow>
      computeHash (initializeZobristKeys rnd) (P\<lparr>black_castle_moves := n\<rparr>) s
        = computeHash (initializeZobristKeys rnd) P s)"
  by (simp add: computeHash_def Let_def hashCastle_zero hashCastle_large castleKeys_length)

theorem computeHash_large_counter_witness:
  "white_castle_moves emptyGame = 0 \<and> black_castle_moves emptyGame = 0 \<and> (3::int) < 7
   \<and> computeHash (initializeZobristKeys int) (emptyGame\<lparr>white_castle_moves := 7\<rparr>) Black
        = computeHash (initializeZobristKeys int) emptyGame Black
   \<and> computeHash (initializeZobristKeys int) (emptyGame\<lparr>black_castle_moves := 7\<rparr>) Black
        = computeHash (initializeZobristKeys int) emptyGame Black"
  using computeHash_large_counter [of emptyGame 7 int Black]
  by (simp add: emptyGame_def position_def)

lemma map_of_mapSet_same: "map_of (mapSet k v es) k = Some v"
  by (induction es) auto

lemma length_mapSet_present: "map_of es k = Some e \<Longrightarrow> length (mapSet k v es) = length es"
  by (induction es) (auto split: if_splits)

lemma mapSet_present_head:
  "map_of es k = Some e \<Longrightarrow> fst (hd (mapSet k v es)) = fst (hd es)"
  by (cases es) (auto split: if_splits)

lemma mapSet_fresh: "map_of es k = None \<Longrightarrow> mapSet k v es = es @ [(k, v)]"
  by (induction es) (auto split: if_splits)

lemma map_of_mapDelete: "map_of (mapDelete k' es) k = (if k = k' then None else map_of es k)"
  by (induction es) (auto simp: mapDelete_def)

text \<open>After the eviction a key is gone exactly if it was the first one of a full table.\<close>

lemma probe_evictOldest:
  "probe (evictOldest tt) k
     = (if of_nat (length (table tt)) > maxSize tt \<and> table tt \<noteq> [] \<and> fst (hd (table tt)) = k
        then None else probe tt k)"
  by (cases "table tt")
     (auto simp: probe_def evictOldest_def map_of_mapDelete)

lemma store_replaces:
  assumes "\<not> (\<exists>e. probe tt k = Some e \<and> entryDepth e > d)"
  shows "store tt k d sc fl bm
     = evictOldest (tt\<lparr>table := mapSet k \<lparr>zobristKey = k, entryDepth = d, entryScore = sc,
          entryFlag = fl, bestMoveNotation = bm\<rparr> (table tt)\<rparr>)"
  using assms by (auto simp: store_def Let_def split: option.splits)

lemma store_present:
  assumes "probe tt k = Some e" "entryDepth e \<le> d"
  shows "probe (store tt k d sc fl bm) k
     = (if of_nat (length (table tt)) > maxSize tt \<and> fst (hd (table tt)) = k then None
        else Some \<lparr>zobristKey = k, entryDepth = d, entryScore = sc, entryFlag = fl,
                   bestMoveNotation = bm\<rparr>)"
proof -
  let ?new = "\<lparr>zobristKey = k, entryDepth = d, entryScore = sc, entryFlag = fl,
                bestMoveNotation = bm\<rparr>"
  let ?set = "tt\<lparr>table := mapSet k ?new (table tt)\<rparr>"
  have present: "map_of (table tt) k = Some e"
    using assms(1) by (simp add: probe_def)
  have st: "store tt k d sc fl bm = evictOldest ?set"
    using assms by (intro store_replaces) auto
  have p: "probe ?set k = Some ?new"
    by (simp add: probe_def map_of_mapSet_same)
  have len: "length (table ?set) = length (table tt)"
    using present by (simp add: length_mapSet_present)
  have hd: "fst (hd (table ?set)) = fst (hd (table tt))"
    using present by (simp add: mapSet_present_head)
  have ne: "table ?set \<noteq> []"
    using p by (auto simp: probe_def)
  have mx: "maxSize ?set = maxSize tt" by simp
  show ?thesis
    unfolding st probe_evictOldest [of ?set k] p len hd mx using ne by simp
qed

lemma store_fresh:
  assumes "probe tt k = None"
  shows "probe (store tt k d sc fl bm) k
     = (if table tt = [] \<and> maxSize tt < 1 then None
        else Some \<lparr>zobristKey = k, entryDepth = d, entryScore = sc, entryFlag = fl,
                   bestMoveNotation = bm\<rparr>)"
proof -
  let ?new = "\<lparr>zobristKey = k, entryDepth = d, entryScore = sc, entryFlag = fl,
                bestMoveNotation = bm\<rparr>"
  let ?set = "tt\<lparr>table := mapSet k ?new (table tt)\<rparr>"
  have fresh: "map_of (table tt) k = None"
    using assms by (simp add: probe_def)
  have st: "store tt k d sc fl bm = evictOldest ?set"
    using assms by (intro store_replaces) auto
  have tab: "table ?set = table tt @ [(k, ?new)]"
    using fresh by (simp add: mapSet_fresh)
  have p: "probe ?set k = Some ?new"
    by (simp add: probe_def map_of_mapSet_same)
  show ?thesis
  proof (cases "table tt")
    case Nil
    then show ?thesis
      unfolding st probe_evictOldest [of ?set k] p tab by auto
  next
    case (Cons first rest)
    with fresh have "fst first \<noteq> k"
      by (cases first) (auto split: if_splits)
    with Cons show ?thesis
      unfolding st probe_evictOldest [of ?set k] p tab by auto
  qed
qed

text \<open>
  Claim C7. Replacement is depth-preferring, and a stored entry is found again. When
  \<open>store\<close> finds an entry for the key whose depth is strictly greater than the new depth,
  the table is left as it is. When the existing depth is at most the new depth, the entry
  is overwritten: afterwards \<open>probe\<close> returns the new entry, unless the size bound evicted
  the key, which happens exactly when the table is over its bound and the key is its
  oldest. When the key is new, \<open>probe\<close> returns the new entry afterwards, unless the
  table was empty and its bound is below 1, so that the entry is evicted as soon as it is
  set. In every case, an entry that \<open>probe\<close> returns for the key after \<open>store\<close> has at least
  the stored depth; and in a table that is within its bound of at least 1, \<open>probe\<close> does
  return one.
\<close>

theorem store_depth_preferring:
  "(\<forall>e. probe tt k = Some e \<and> entryDepth e > d \<longrightarrow> store tt k d sc fl bm = tt)
   \<and> (\<forall>e. probe tt k = Some e \<and> entryDepth e \<le> d \<longrightarrow>
         probe (store tt k d sc fl bm) k
           = (if of_nat (length (table tt)) > maxSize tt \<and> fst (hd (table tt)) = k then None
              else Some \<lparr>zobristKey = k, entryDepth = d, entryScore = sc, entryFlag = fl,
                         bestMoveNotation = bm\<rparr>))
   \<and> (probe tt k = None \<longrightarrow>
         probe (store tt k d sc fl bm) k
           = (if table tt = [] \<and> maxSize tt < 1 then None
              else Some \<lparr>zobristKey = k, entryDepth = d, entryScore = sc, entryFlag = fl,
                         bestMoveNotation = bm\<rparr>))
   \<and> (\<forall>e'. probe (store tt k d sc fl bm) k = Some e' \<longrightarrow> entryDepth e' \<ge> d)
   \<and> (1 \<le> maxSize tt \<and> of_nat (length (table tt)) \<le> maxSize tt \<longrightarrow>
         (\<exists>e'. probe (store tt k d sc fl bm) k = Some e' \<and> entryDepth e' \<ge> d))"
proof -
  let ?new = "\<lparr>zobristKey = k, entryDepth = d, entryScore = sc, entryFlag = fl,
                bestMoveNotation = bm\<rparr>"
  have kept: "store tt k d sc fl bm = tt" if "probe tt k = Some e" "entryDepth e > d" for e
    using that by (simp add: store_def Let_def)
  have cases: "(\<exists>e. probe tt k = Some e \<and> entryDepth e > d)
      \<or> (\<exists>e. probe tt k = Some e \<and> entryDepth e \<le> d) \<or> probe tt k = None"
    by (cases "probe tt k") auto
  have deep: "entryDepth e' \<ge> d" if "probe (store tt k d sc fl bm) k = Some e'" for e'
    using cases
  proof (elim disjE exE conjE)
    fix e assume "probe tt k = Some e" "entryDepth e > d"
    with that show ?thesis by (simp add: kept)
  next
    fix e assume "probe tt k = Some e" "entryDepth e \<le> d"
    from store_present [OF this, of sc fl bm] that show ?thesis
      by (auto split: if_splits)
  next
    assume "probe tt k = None"
    from store_fresh [OF this, of d sc fl bm] that show ?thesis
      by (auto split: if_splits)
  qed
  have found: "\<exists>e'. probe (store tt k d sc fl bm) k = Some e' \<and> entryDepth e' \<ge> d"
    if "1 \<le> maxSize tt" "of_nat (length (table tt)) \<le> maxSize tt"
    using cases
  proof (elim disjE exE conjE)
    fix e assume "probe tt k = Some e" "entryDepth e > d"
    then show ?thesis by (simp add: kept)
  next
    fix e assume "probe tt k = Some e" "entryDepth e \<le> d"
    from store_present [OF this, of sc fl bm] that show ?thesis by simp
  next
    assume "probe tt k = None"
    from store_fresh [OF this, of d sc fl bm] that show ?thesis by simp
  qed
  show ?thesis
    using kept store_present store_fresh deep found by blast
qed

theorem store_depth_preferring_witness:
  "probe smallTable 5 = Some oldEntry \<and> entryDepth oldEntry > 2
   \<and> store smallTable 5 2 (Num 7) Lowerbound None = smallTable
   \<and> entryDepth oldEntry \<le> 4
   \<and> probe (store smallTable 5 4 (Num 7) Lowerbound None) 5
        = Some \<lparr>zobristKey = 5, entryDepth = 4, entryScore = Num 7, entryFlag = Lowerbound,
                bestMoveNotation = None\<rparr>
   \<and> probe smallTable 6 = None
   \<and> probe (store smallTable 6 1 (Num 7) Lowerbound None) 6
        = Some \<lparr>zobristKey = 6, entryDepth = 1, entryScore = Num 7, entryFlag = Lowerbound,
                bestMoveNotation = None\<rparr>
   \<and> 1 \<le> maxSize smallTable \<and> of_nat (length (table smallTable)) \<le> maxSize smallTable"
  using store_depth_preferring [of smallTable 5 2 "Num 7" Lowerbound None]
        store_depth_preferring [of smallTable 5 4 "Num 7" Lowerbound None]
        store_depth_preferring [of smallTable 6 1 "Num 7" Lowerbound None]
  by (simp add: smallTable_def oldEntry_def probe_def)

end
